theory Spec2Isabelle
  imports Main
begin

section \<open>Data model\<close>

text \<open>
  The three entities of \<^verbatim>\<open>simple-contract.go\<close>. All fields are Go strings. The
  fields \<^verbatim>\<open>KeyID\<close> and \<^verbatim>\<open>Value\<close> occur in several structs; the copies in
  \<^verbatim>\<open>Proposal\<close> and \<^verbatim>\<open>Result\<close> carry a suffix here. The parameters \<^verbatim>\<open>id\<close> and
  \<^verbatim>\<open>modulo\<close> of the contract are written \<open>id'\<close> and \<open>modulo'\<close>.
\<close>

record Patient =
  Name :: string
  PreExistingConditions :: string
  DiagnosisID :: string
  StatusID :: string
  KeyID :: string

record Proposal =
  RequesterID :: string
  RequestedID :: string
  PatientsIDs :: string
  KeyID_Proposal :: string
  Value_Proposal :: string

record Result =
  ProposalID :: string
  KeyID_Result :: string
  Value_Result :: string

text \<open>\<^verbatim>\<open>new(Patient)\<close>, \<^verbatim>\<open>new(Proposal)\<close>, \<^verbatim>\<open>new(Result)\<close>: every field the empty string.\<close>

definition new_Patient :: Patient where
  "new_Patient = \<lparr>Name = [], PreExistingConditions = [], DiagnosisID = [], StatusID = [], KeyID = []\<rparr>"

definition new_Proposal :: Proposal where
  "new_Proposal = \<lparr>RequesterID = [], RequestedID = [], PatientsIDs = [], KeyID_Proposal = [],
     Value_Proposal = []\<rparr>"

definition new_Result :: Result where
  "new_Result = \<lparr>ProposalID = [], KeyID_Result = [], Value_Result = []\<rparr>"

section \<open>Errors\<close>

text \<open>
  The error kinds of the specification. The contract builds two of them:
  \<^verbatim>\<open>fmt.Errorf("%s does not exist", id)\<close> is \<open>NotFoundError id\<close>, and an error of the
  ledger stub (wrapped as \<^verbatim>\<open>"Failed to read from world state. %s"\<close> on a read, returned
  as it is on a write) is \<open>PersistenceError\<close> with its message. No statement of the contract
  builds a \<open>DecodeError\<close> or an \<open>OracleError\<close>.
\<close>

datatype error =
    NotFoundError string
  | PersistenceError string
  | DecodeError string
  | OracleError string

fun error_message :: "error \<Rightarrow> string" where
  "error_message (NotFoundError i) = i @ '' does not exist''"
| "error_message (PersistenceError m) = m"
| "error_message (DecodeError m) = m"
| "error_message (OracleError m) = m"

section \<open>Ledger values and their JSON reading\<close>

text \<open>
  A ledger value is a byte string that \<^verbatim>\<open>encoding/json\<close> writes and reads. The text
  level of JSON is the library's; a value is represented here by what its bytes denote:
  a JSON object with its members in order, another JSON value, or no JSON at all
  (the empty byte string among them). A string is the text it holds: the escapes of the
  encoder and what it does to a string that is not valid UTF-8 are below this model.
  A member's value is a string, \<^verbatim>\<open>null\<close>, or anything else (number, boolean, array,
  object), which no field of the three structs accepts.
\<close>

datatype jvalue = JString string | JNull | JOther

datatype bytes =
    JObject "(string \<times> jvalue) list"
  | JValue jvalue
  | Malformed

datatype json_error = SyntaxError | UnmarshalTypeError

text \<open>
  \<^verbatim>\<open>json.Marshal\<close> of a struct of strings: one member per field, named by its tag, in
  declaration order. It cannot fail on these structs (the contract drops its error).
\<close>

definition json_Marshal_Patient :: "Patient \<Rightarrow> bytes" where
  "json_Marshal_Patient p = JObject
     [(''name'', JString (Name p)),
      (''preExistingConditions'', JString (PreExistingConditions p)),
      (''diagnosisID'', JString (DiagnosisID p)),
      (''statusID'', JString (StatusID p)),
      (''keyID'', JString (KeyID p))]"

definition json_Marshal_Proposal :: "Proposal \<Rightarrow> bytes" where
  "json_Marshal_Proposal p = JObject
     [(''requesterID'', JString (RequesterID p)),
      (''requestedID'', JString (RequestedID p)),
      (''patientsIDs'', JString (PatientsIDs p)),
      (''keyID'', JString (KeyID_Proposal p)),
      (''value'', JString (Value_Proposal p))]"

definition json_Marshal_Result :: "Result \<Rightarrow> bytes" where
  "json_Marshal_Result r = JObject
     [(''proposalID'', JString (ProposalID r)),
      (''keyID'', JString (KeyID_Result r)),
      (''value'', JString (Value_Result r))]"

text \<open>
  \<^verbatim>\<open>json.Unmarshal\<close> into a struct. A member's key selects the field whose tag it
  equals, or else the field whose tag it equals up to letter case (ASCII case here);
  other members are skipped. A string is stored into the field, \<^verbatim>\<open>null\<close> leaves it,
  any other value leaves it and records a type error while decoding goes on. Bytes that
  are no JSON leave the struct untouched and give a syntax error; a top-level value that
  is no object leaves it untouched too. The result is the error and the struct.
\<close>

definition lower :: "char \<Rightarrow> char" where
  "lower c = (case map_of (zip ''ABCDEFGHIJKLMNOPQRSTUVWXYZ'' ''abcdefghijklmnopqrstuvwxyz'') c of
                None \<Rightarrow> c | Some l \<Rightarrow> l)"

definition foldName :: "string \<Rightarrow> string" where
  "foldName s = map lower s"

definition find_field :: "(string \<times> 'f) list \<Rightarrow> string \<Rightarrow> 'f option" where
  "find_field fs k =
     (case map_of fs k of
        Some f \<Rightarrow> Some f
      | None \<Rightarrow> map_of (map (\<lambda>(n, f). (foldName n, f)) fs) (foldName k))"

fun decode_object ::
  "(string \<times> (string \<Rightarrow> 'v \<Rightarrow> 'v)) list \<Rightarrow> (string \<times> jvalue) list \<Rightarrow> 'v \<Rightarrow> json_error option \<times> 'v"
where
  "decode_object fs [] v = (None, v)"
| "decode_object fs ((k, x) # ms) v =
     (case find_field fs k of
        None \<Rightarrow> decode_object fs ms v
      | Some store \<Rightarrow>
          (case x of
             JString s \<Rightarrow> decode_object fs ms (store s v)
           | JNull \<Rightarrow> decode_object fs ms v
           | JOther \<Rightarrow>
               (case decode_object fs ms v of (e, v') \<Rightarrow> (Some UnmarshalTypeError, v'))))"

fun json_Unmarshal ::
  "(string \<times> (string \<Rightarrow> 'v \<Rightarrow> 'v)) list \<Rightarrow> bytes \<Rightarrow> 'v \<Rightarrow> json_error option \<times> 'v"
where
  "json_Unmarshal fs Malformed v = (Some SyntaxError, v)"
| "json_Unmarshal fs (JValue JNull) v = (None, v)"
| "json_Unmarshal fs (JValue x) v = (Some UnmarshalTypeError, v)"
| "json_Unmarshal fs (JObject ms) v = decode_object fs ms v"

definition Patient_fields :: "(string \<times> (string \<Rightarrow> Patient \<Rightarrow> Patient)) list" where
  "Patient_fields =
     [(''name'', \<lambda>s p. p\<lparr>Name := s\<rparr>),
      (''preExistingConditions'', \<lambda>s p. p\<lparr>PreExistingConditions := s\<rparr>),
      (''diagnosisID'', \<lambda>s p. p\<lparr>DiagnosisID := s\<rparr>),
      (''statusID'', \<lambda>s p. p\<lparr>StatusID := s\<rparr>),
      (''keyID'', \<lambda>s p. p\<lparr>KeyID := s\<rparr>)]"

definition Proposal_fields :: "(string \<times> (string \<Rightarrow> Proposal \<Rightarrow> Proposal)) list" where
  "Proposal_fields =
     [(''requesterID'', \<lambda>s p. p\<lparr>RequesterID := s\<rparr>),
      (''requestedID'', \<lambda>s p. p\<lparr>RequestedID := s\<rparr>),
      (''patientsIDs'', \<lambda>s p. p\<lparr>PatientsIDs := s\<rparr>),
      (''keyID'', \<lambda>s p. p\<lparr>KeyID_Proposal := s\<rparr>),
      (''value'', \<lambda>s p. p\<lparr>Value_Proposal := s\<rparr>)]"

definition Result_fields :: "(string \<times> (string \<Rightarrow> Result \<Rightarrow> Result)) list" where
  "Result_fields =
     [(''proposalID'', \<lambda>s r. r\<lparr>ProposalID := s\<rparr>),
      (''keyID'', \<lambda>s r. r\<lparr>KeyID_Result := s\<rparr>),
      (''value'', \<lambda>s r. r\<lparr>Value_Result := s\<rparr>)]"

section \<open>The ledger stub and the crypto library\<close>

text \<open>
  The world state behind \<^verbatim>\<open>ctx.GetStub()\<close>: the stored values by key, and for each
  key whether a read or a write of it fails in the ledger, with the stub's message.
  \<^verbatim>\<open>GetState\<close> gives the bytes, \<^verbatim>\<open>nil\<close> for an absent key, or an error;
  \<^verbatim>\<open>PutState\<close> stores the bytes at the key or gives an error and stores nothing.
\<close>

record stub =
  state :: "string \<rightharpoonup> bytes"
  get_fails :: "string \<Rightarrow> string option"
  put_fails :: "string \<Rightarrow> string option"

definition GetState :: "stub \<Rightarrow> string \<Rightarrow> string + bytes option" where
  "GetState ctx key = (case get_fails ctx key of Some err \<Rightarrow> Inl err | None \<Rightarrow> Inr (state ctx key))"

definition PutState :: "stub \<Rightarrow> string \<Rightarrow> bytes \<Rightarrow> error option \<times> stub" where
  "PutState ctx key val =
     (case put_fails ctx key of
        Some err \<Rightarrow> (Some (PersistenceError err), ctx)
      | None \<Rightarrow> (None, ctx\<lparr>state := (state ctx)(key \<mapsto> val)\<rparr>))"

text \<open>
  The two functions of the package \<^verbatim>\<open>phe\<close> that the contract calls. Each returns one
  string and no error.
\<close>

record phe =
  MeanFromString :: "string \<Rightarrow> string list \<Rightarrow> string"
  KeyUpdateFromString :: "string \<Rightarrow> string \<Rightarrow> string \<Rightarrow> string \<Rightarrow> string"

section \<open>The contract\<close>

definition CreatePatient ::
  "stub \<Rightarrow> string \<Rightarrow> string \<Rightarrow> string \<Rightarrow> string \<Rightarrow> string \<Rightarrow> string \<Rightarrow> error option \<times> stub"
where
  "CreatePatient ctx id' name preExistingConditions diagnosisID statusID keyID =
     (let patient = \<lparr>Name = name, PreExistingConditions = preExistingConditions,
                     DiagnosisID = diagnosisID, StatusID = statusID, KeyID = keyID\<rparr>;
          patientAsBytes = json_Marshal_Patient patient
      in PutState ctx id' patientAsBytes)"

definition FindPatient :: "stub \<Rightarrow> string \<Rightarrow> error + Patient" where
  "FindPatient ctx id' =
     (case GetState ctx id' of
        Inl err \<Rightarrow> Inl (PersistenceError (''Failed to read from world state. '' @ err))
      | Inr None \<Rightarrow> Inl (NotFoundError id')
      | Inr (Some patientAsBytes) \<Rightarrow>
          Inr (snd (json_Unmarshal Patient_fields patientAsBytes new_Patient)))"

definition UpdatePatient ::
  "stub \<Rightarrow> string \<Rightarrow> string \<Rightarrow> string \<Rightarrow> string \<Rightarrow> string \<Rightarrow> string \<Rightarrow> error option \<times> stub"
where
  "UpdatePatient ctx id' name preExistingConditions diagnosisID statusID keyID =
     (case FindPatient ctx id' of
        Inl err \<Rightarrow> (Some err, ctx)
      | Inr patient \<Rightarrow>
          (let patient = patient\<lparr>Name := name\<rparr>;
               patient = patient\<lparr>PreExistingConditions := preExistingConditions\<rparr>;
               patient = patient\<lparr>DiagnosisID := diagnosisID\<rparr>;
               patient = patient\<lparr>StatusID := statusID\<rparr>;
               patient = patient\<lparr>KeyID := keyID\<rparr>;
               patientAsBytes = json_Marshal_Patient patient
           in PutState ctx id' patientAsBytes))"

text \<open>\<^verbatim>\<open>strings.Split(s, ",")\<close>, for a separator of one byte: the empty string gives one empty piece.\<close>

fun strings_Split :: "string \<Rightarrow> char \<Rightarrow> string list" where
  "strings_Split [] sep = [[]]"
| "strings_Split (c # cs) sep =
     (if c = sep then [] # strings_Split cs sep
      else (case strings_Split cs sep of [] \<Rightarrow> [[c]] | w # ws \<Rightarrow> (c # w) # ws))"

text \<open>The loop of \<^verbatim>\<open>CreateProposal\<close> over \<^verbatim>\<open>pids\<close>, appending to \<^verbatim>\<open>ms\<close>.\<close>

fun patients_values :: "stub \<Rightarrow> string list \<Rightarrow> string list \<Rightarrow> error + string list" where
  "patients_values ctx ms [] = Inr ms"
| "patients_values ctx ms (pid # pids) =
     (case FindPatient ctx pid of
        Inl err \<Rightarrow> Inl err
      | Inr patient \<Rightarrow> patients_values ctx (ms @ [PreExistingConditions patient]) pids)"

definition CreateProposal ::
  "phe \<Rightarrow> stub \<Rightarrow> string \<Rightarrow> string \<Rightarrow> string \<Rightarrow> string \<Rightarrow> string \<Rightarrow> string \<Rightarrow> error option \<times> stub"
where
  "CreateProposal lib ctx id' requesterID requestedID patientsIDs keyID modulo' =
     (let proposal = \<lparr>RequesterID = requesterID, RequestedID = requestedID,
                      PatientsIDs = patientsIDs, KeyID_Proposal = keyID, Value_Proposal = []\<rparr>;
          pids = strings_Split (PatientsIDs proposal) (CHR '','')
      in case patients_values ctx [] pids of
           Inl err \<Rightarrow> (Some err, ctx)
         | Inr ms \<Rightarrow>
             (let m = MeanFromString lib modulo' ms;
                  proposal = proposal\<lparr>Value_Proposal := m\<rparr>;
                  proposalAsBytes = json_Marshal_Proposal proposal
              in PutState ctx id' proposalAsBytes))"

definition FindProposal :: "stub \<Rightarrow> string \<Rightarrow> error + Proposal" where
  "FindProposal ctx id' =
     (case GetState ctx id' of
        Inl err \<Rightarrow> Inl (PersistenceError (''Failed to read from world state. '' @ err))
      | Inr None \<Rightarrow> Inl (NotFoundError id')
      | Inr (Some proposalAsBytes) \<Rightarrow>
          Inr (snd (json_Unmarshal Proposal_fields proposalAsBytes new_Proposal)))"

text \<open>
  \<^verbatim>\<open>regexp.MustCompile(`[0-9]+`).Find\<close>: the leftmost match, taking as many digits as
  follow; \<^verbatim>\<open>nil\<close> when the text has no digit.
\<close>

definition is_digit :: "char \<Rightarrow> bool" where
  "is_digit c = (c \<in> set ''0123456789'')"

fun re_Find :: "string \<Rightarrow> string option" where
  "re_Find [] = None"
| "re_Find (c # cs) = (if is_digit c then Some (c # takeWhile is_digit cs) else re_Find cs)"

definition result_id :: "string \<Rightarrow> string" where
  "result_id proposalID =
     (let idNumber = (case re_Find proposalID of None \<Rightarrow> [] | Some b \<Rightarrow> b)
      in ''RESULT'' @ idNumber)"

definition CreateResult ::
  "phe \<Rightarrow> stub \<Rightarrow> string \<Rightarrow> string \<Rightarrow> string \<Rightarrow> string \<Rightarrow> string \<Rightarrow> error option \<times> stub"
where
  "CreateResult lib ctx proposalID firstToken secondToken keyID modulo' =
     (case FindProposal ctx proposalID of
        Inl err \<Rightarrow> (Some err, ctx)
      | Inr proposal \<Rightarrow>
          (let newValue = KeyUpdateFromString lib modulo' firstToken secondToken (Value_Proposal proposal);
               result = \<lparr>ProposalID = proposalID, KeyID_Result = keyID, Value_Result = newValue\<rparr>;
               id' = result_id proposalID;
               resultAsBytes = json_Marshal_Result result
           in PutState ctx id' resultAsBytes))"

definition FindResult :: "stub \<Rightarrow> string \<Rightarrow> error + Result" where
  "FindResult ctx id' =
     (case GetState ctx id' of
        Inl err \<Rightarrow> Inl (PersistenceError (''Failed to read from world state. '' @ err))
      | Inr None \<Rightarrow> Inl (NotFoundError id')
      | Inr (Some resultAsBytes) \<Rightarrow>
          Inr (snd (json_Unmarshal Result_fields resultAsBytes new_Result)))"

section \<open>The first run of digits, in the words of the specification\<close>

text \<open>
  The text splits into a part without digits, a run of digits, and a rest that is empty
  or begins with a character that is no digit; the run is empty only when the rest is
  empty too, that is when the text has no digit at all.
\<close>

definition digit_run_at :: "string \<Rightarrow> string \<Rightarrow> string \<Rightarrow> bool" where
  "digit_run_at pre run post \<longleftrightarrow>
     (\<forall>c \<in> set pre. \<not> is_digit c) \<and> (\<forall>c \<in> set run. is_digit c) \<and>
     (case post of [] \<Rightarrow> True | c # _ \<Rightarrow> run \<noteq> [] \<and> \<not> is_digit c)"

section \<open>A ledger and a crypto library to run the contract on\<close>

text \<open>
  Three patients with the ciphertexts \<open>c1\<close>, \<open>c2\<close>, \<open>c3\<close>, and one value that is no
  JSON; no read and no write fails. The library's functions print their arguments.
\<close>

definition example_stub :: stub where
  "example_stub = \<lparr>state =
       [''s1'' \<mapsto> json_Marshal_Patient \<lparr>Name = ''Ann'', PreExistingConditions = ''c1'',
                   DiagnosisID = ''d1'', StatusID = ''t1'', KeyID = ''k1''\<rparr>,
        ''s2'' \<mapsto> json_Marshal_Patient \<lparr>Name = ''Bob'', PreExistingConditions = ''c2'',
                   DiagnosisID = ''d2'', StatusID = ''t2'', KeyID = ''k1''\<rparr>,
        ''s3'' \<mapsto> json_Marshal_Patient \<lparr>Name = ''Cy'', PreExistingConditions = ''c3'',
                   DiagnosisID = ''d3'', StatusID = ''t3'', KeyID = ''k1''\<rparr>,
        ''x'' \<mapsto> Malformed],
     get_fails = (\<lambda>k. None), put_fails = (\<lambda>k. None)\<rparr>"

definition example_phe :: phe where
  "example_phe = \<lparr>MeanFromString = (\<lambda>m cs. ''mean('' @ m @ '';'' @ concat (map (\<lambda>c. c @ '';'') cs) @ '')''),
                  KeyUpdateFromString = (\<lambda>m a b c. ''switch('' @ m @ '';'' @ a @ '';'' @ b @ '';'' @ c @ '')'')\<rparr>"

text \<open>A ledger that holds one proposal, at the id \<open>P7x2\<close>.\<close>

definition proposal_stub :: stub where
  "proposal_stub = \<lparr>state =
       [''P7x2'' \<mapsto> json_Marshal_Proposal \<lparr>RequesterID = ''r1'', RequestedID = ''r2'',
                   PatientsIDs = ''s1,s2'', KeyID_Proposal = ''k1'', Value_Proposal = ''v''\<rparr>],
     get_fails = (\<lambda>k. None), put_fails = (\<lambda>k. None)\<rparr>"

text \<open>A crypto library that answers every call with the empty string.\<close>

definition empty_phe :: phe where
  "empty_phe = \<lparr>MeanFromString = (\<lambda>m cs. []), KeyUpdateFromString = (\<lambda>m a b c. [])\<rparr>"


text \<open>The ledger with the one proposal, refusing every write.\<close>

definition refusing_stub :: stub where
  "refusing_stub = proposal_stub\<lparr>put_fails := (\<lambda>k. Some ''write refused'')\<rparr>"

section \<open>Reading back what was written\<close>

lemma find_field_Patient_simps:
  "find_field Patient_fields ''name'' = Some (\<lambda>s p. p\<lparr>Name := s\<rparr>)"
  "find_field Patient_fields ''preExistingConditions'' = Some (\<lambda>s p. p\<lparr>PreExistingConditions := s\<rparr>)"
  "find_field Patient_fields ''diagnosisID'' = Some (\<lambda>s p. p\<lparr>DiagnosisID := s\<rparr>)"
  "find_field Patient_fields ''statusID'' = Some (\<lambda>s p. p\<lparr>StatusID := s\<rparr>)"
  "find_field Patient_fields ''keyID'' = Some (\<lambda>s p. p\<lparr>KeyID := s\<rparr>)"
  by (simp_all add: find_field_def Patient_fields_def)

lemma Unmarshal_Marshal_Patient:
  "json_Unmarshal Patient_fields (json_Marshal_Patient p) new_Patient = (None, p)"
  by (simp add: json_Marshal_Patient_def new_Patient_def find_field_Patient_simps)

lemma find_field_Proposal_simps:
  "find_field Proposal_fields ''requesterID'' = Some (\<lambda>s p. p\<lparr>RequesterID := s\<rparr>)"
  "find_field Proposal_fields ''requestedID'' = Some (\<lambda>s p. p\<lparr>RequestedID := s\<rparr>)"
  "find_field Proposal_fields ''patientsIDs'' = Some (\<lambda>s p. p\<lparr>PatientsIDs := s\<rparr>)"
  "find_field Proposal_fields ''keyID'' = Some (\<lambda>s p. p\<lparr>KeyID_Proposal := s\<rparr>)"
  "find_field Proposal_fields ''value'' = Some (\<lambda>s p. p\<lparr>Value_Proposal := s\<rparr>)"
  by (simp_all add: find_field_def Proposal_fields_def)

lemma Unmarshal_Marshal_Proposal:
  "json_Unmarshal Proposal_fields (json_Marshal_Proposal p) new_Proposal = (None, p)"
  by (simp add: json_Marshal_Proposal_def new_Proposal_def find_field_Proposal_simps)



subsection \<open>The stub\<close>

lemma PutState_ok:
  "put_fails ctx key = None \<Longrightarrow> PutState ctx key val = (None, ctx\<lparr>state := (state ctx)(key \<mapsto> val)\<rparr>)"
  by (simp add: PutState_def)

lemma PutState_fst:
  "fst (PutState ctx key val) = map_option PersistenceError (put_fails ctx key)"
  by (simp add: PutState_def split: option.splits)

lemma PutState_snd:
  "snd (PutState ctx key val) = (if put_fails ctx key = None then ctx\<lparr>state := (state ctx)(key \<mapsto> val)\<rparr> else ctx)"
  by (simp add: PutState_def split: option.splits)

lemma FindPatient_absent:
  "state ctx i = None \<Longrightarrow> get_fails ctx i = None \<Longrightarrow> FindPatient ctx i = Inl (NotFoundError i)"
  by (simp add: FindPatient_def GetState_def)

lemma FindPatient_error:
  "FindPatient ctx i = Inl err \<longleftrightarrow>
     (case get_fails ctx i of
        Some m \<Rightarrow> err = PersistenceError (''Failed to read from world state. '' @ m)
      | None \<Rightarrow> state ctx i = None \<and> err = NotFoundError i)"
  by (auto simp: FindPatient_def GetState_def split: option.splits)

lemma FindPatient_absent_fails:
  "state ctx i = None \<Longrightarrow> \<exists>err. FindPatient ctx i = Inl err"
  by (simp add: FindPatient_def GetState_def split: option.splits)

lemma FindProposal_present:
  "state ctx i = Some b \<Longrightarrow> get_fails ctx i = None \<Longrightarrow>
   FindProposal ctx i = Inr (snd (json_Unmarshal Proposal_fields b new_Proposal))"
  by (simp add: FindProposal_def GetState_def)

lemma FindProposal_error:
  "FindProposal ctx i = Inl err \<longleftrightarrow>
     (case get_fails ctx i of
        Some m \<Rightarrow> err = PersistenceError (''Failed to read from world state. '' @ m)
      | None \<Rightarrow> state ctx i = None \<and> err = NotFoundError i)"
  by (auto simp: FindProposal_def GetState_def split: option.splits)

subsection \<open>The loop over the patients' ids\<close>

lemma patients_values_all:
  "list_all2 (\<lambda>i p. FindPatient ctx i = Inr p) pids ps \<Longrightarrow>
   patients_values ctx ms pids = Inr (ms @ map PreExistingConditions ps)"
  by (induction pids ps arbitrary: ms rule: list_all2_induct) simp_all

lemma patients_values_first_failure:
  "list_all2 (\<lambda>i p. FindPatient ctx i = Inr p) pre ps \<Longrightarrow> FindPatient ctx bad = Inl err \<Longrightarrow>
   patients_values ctx ms (pre @ bad # post) = Inl err"
  by (induction pre ps arbitrary: ms rule: list_all2_induct) simp_all

lemma first_failure_exists:
  "\<exists>i \<in> set pids. \<exists>e. FindPatient ctx i = Inl e \<Longrightarrow>
   \<exists>pre bad post ps err. pids = pre @ bad # post \<and>
      list_all2 (\<lambda>i p. FindPatient ctx i = Inr p) pre ps \<and> FindPatient ctx bad = Inl err"
proof (induction pids)
  case Nil
  then show ?case by simp
next
  case (Cons i pids)
  show ?case
  proof (cases "FindPatient ctx i")
    case (Inl e)
    then have "i # pids = [] @ i # pids \<and> list_all2 (\<lambda>i p. FindPatient ctx i = Inr p) [] []
                 \<and> FindPatient ctx i = Inl e"
      by simp
    then show ?thesis by blast
  next
    case (Inr p)
    with Cons.prems have "\<exists>i \<in> set pids. \<exists>e. FindPatient ctx i = Inl e" by auto
    from Cons.IH [OF this] obtain pre bad post ps err where
      h: "pids = pre @ bad # post" "list_all2 (\<lambda>i p. FindPatient ctx i = Inr p) pre ps"
         "FindPatient ctx bad = Inl err"
      by blast
    with Inr have "i # pids = (i # pre) @ bad # post \<and>
        list_all2 (\<lambda>i p. FindPatient ctx i = Inr p) (i # pre) (p # ps) \<and> FindPatient ctx bad = Inl err"
      by simp
    then show ?thesis by blast
  qed
qed

section \<open>Creating a proposal\<close>

text \<open>
  C1. When some entry of the comma-separated list of patients' ids has no value in the
  ledger, \<^verbatim>\<open>CreateProposal\<close> resolves the entries in input order: every entry before the
  first one that fails was found, the call returns exactly the error of that first
  failing entry (\<open>NotFoundError\<close> of that id when its read did not fail), and the ledger
  is the one before the call, so that a proposal id without entry has none afterwards.
\<close>

theorem CreateProposal_missing_subject:
  assumes "missing \<in> set (strings_Split patientsIDs (CHR '',''))"
      and "state ctx missing = None"
  shows "\<exists>pre bad post ps err.
           strings_Split patientsIDs (CHR '','') = pre @ bad # post
         \<and> list_all2 (\<lambda>i p. FindPatient ctx i = Inr p) pre ps
         \<and> FindPatient ctx bad = Inl err
         \<and> (get_fails ctx bad = None \<longrightarrow> state ctx bad = None \<and> err = NotFoundError bad)
         \<and> CreateProposal lib ctx id' requesterID requestedID patientsIDs keyID modulo' = (Some err, ctx)
         \<and> (state ctx id' = None \<longrightarrow>
              state (snd (CreateProposal lib ctx id' requesterID requestedID patientsIDs keyID modulo')) id' = None)"
proof -
  from assms have "\<exists>i \<in> set (strings_Split patientsIDs (CHR '','')). \<exists>e. FindPatient ctx i = Inl e"
    using FindPatient_absent_fails by blast
  from first_failure_exists [OF this] obtain pre bad post ps err where
    h: "strings_Split patientsIDs (CHR '','') = pre @ bad # post"
       "list_all2 (\<lambda>i p. FindPatient ctx i = Inr p) pre ps" "FindPatient ctx bad = Inl err"
    by blast
  have loop: "patients_values ctx [] (strings_Split patientsIDs (CHR '','')) = Inl err"
    unfolding h(1) using h(2,3) by (rule patients_values_first_failure)
  have res: "CreateProposal lib ctx id' requesterID requestedID patientsIDs keyID modulo' = (Some err, ctx)"
    by (simp add: CreateProposal_def loop)
  have nf: "get_fails ctx bad = None \<longrightarrow> state ctx bad = None \<and> err = NotFoundError bad"
    using h(3) by (simp add: FindPatient_error split: option.splits)
  from h res nf show ?thesis by (intro exI conjI) (assumption | simp)+
qed

theorem CreateProposal_missing_subject_witness:
  "''s9'' \<in> set (strings_Split ''s1,s9,s2'' (CHR '',''))
   \<and> state example_stub ''s9'' = None
   \<and> (\<exists>pre bad post ps err.
           strings_Split ''s1,s9,s2'' (CHR '','') = pre @ bad # post
         \<and> list_all2 (\<lambda>i p. FindPatient example_stub i = Inr p) pre ps
         \<and> FindPatient example_stub bad = Inl err
         \<and> (get_fails example_stub bad = None \<longrightarrow> state example_stub bad = None \<and> err = NotFoundError bad)
         \<and> CreateProposal example_phe example_stub ''P1'' ''r1'' ''r2'' ''s1,s9,s2'' ''k2'' ''m'' = (Some err, example_stub)
         \<and> (state example_stub ''P1'' = None \<longrightarrow>
              state (snd (CreateProposal example_phe example_stub ''P1'' ''r1'' ''r2'' ''s1,s9,s2'' ''k2'' ''m'')) ''P1'' = None))"
proof -
  have h1: "''s9'' \<in> set (strings_Split ''s1,s9,s2'' (CHR '',''))" by simp
  have h2: "state example_stub ''s9'' = None" by (simp add: example_stub_def)
  show ?thesis
    using h1 h2 CreateProposal_missing_subject [OF h1 h2, of example_phe "''P1''" "''r1''" "''r2''" "''k2''" "''m''"]
    by blast
qed

section \<open>Creating a result\<close>

lemma takeWhile_run:
  "\<forall>c \<in> set run. P c \<Longrightarrow> (case post of [] \<Rightarrow> True | c # _ \<Rightarrow> \<not> P c) \<Longrightarrow>
   takeWhile P (run @ post) = run"
proof (induction run)
  case Nil
  then show ?case by (cases post) simp_all
next
  case (Cons c cs)
  then show ?case by simp
qed

lemma re_Find_skip:
  "\<forall>c \<in> set pre. \<not> is_digit c \<Longrightarrow> re_Find (pre @ s) = re_Find s"
  by (induction pre) simp_all

lemma re_Find_run:
  assumes "digit_run_at pre run post"
  shows "re_Find (pre @ run @ post) = (if run = [] then None else Some run)"
proof -
  from assms have pre: "\<forall>c \<in> set pre. \<not> is_digit c" and run: "\<forall>c \<in> set run. is_digit c"
    and post: "case post of [] \<Rightarrow> True | c # _ \<Rightarrow> run \<noteq> [] \<and> \<not> is_digit c"
    by (simp_all add: digit_run_at_def)
  have "re_Find (run @ post) = (if run = [] then None else Some run)"
  proof (cases run)
    case Nil
    with post have "post = []" by (cases post) simp_all
    with Nil show ?thesis by simp
  next
    case (Cons c cs)
    from post have p: "case post of [] \<Rightarrow> True | c # _ \<Rightarrow> \<not> is_digit c"
      by (cases post) simp_all
    from run Cons have "\<forall>c \<in> set cs. is_digit c" by simp
    from takeWhile_run [OF this p] have "takeWhile is_digit (cs @ post) = cs" .
    with run Cons show ?thesis by simp
  qed
  with pre show ?thesis by (simp add: re_Find_skip)
qed

lemma result_id_run:
  "digit_run_at pre run post \<Longrightarrow> result_id (pre @ run @ post) = ''RESULT'' @ run"
  by (simp add: result_id_def re_Find_run)


lemma dropWhile_hd:
  "dropWhile P xs = y # ys \<Longrightarrow> \<not> P y"
  using hd_dropWhile [of P xs] by simp

lemma digit_run_exists:
  "\<exists>pre run post. s = pre @ run @ post \<and> digit_run_at pre run post"
proof -
  define pre where "pre = takeWhile (\<lambda>c. \<not> is_digit c) s"
  define rest where "rest = dropWhile (\<lambda>c. \<not> is_digit c) s"
  define run where "run = takeWhile is_digit rest"
  define post where "post = dropWhile is_digit rest"
  have s: "s = pre @ run @ post" by (simp add: pre_def rest_def run_def post_def)
  have a: "\<forall>c \<in> set pre. \<not> is_digit c"
    unfolding pre_def by (auto dest: set_takeWhileD)
  have b: "\<forall>c \<in> set run. is_digit c"
    unfolding run_def by (auto dest: set_takeWhileD)
  have c: "case post of [] \<Rightarrow> True | c # _ \<Rightarrow> run \<noteq> [] \<and> \<not> is_digit c"
  proof (cases post)
    case Nil
    then show ?thesis by simp
  next
    case (Cons c cs)
    then have nd: "\<not> is_digit c" unfolding post_def by (rule dropWhile_hd)
    from Cons obtain r rs where rest: "rest = r # rs"
      unfolding post_def by (cases rest) simp_all
    then have "is_digit r" using dropWhile_hd [of "\<lambda>c. \<not> is_digit c" s r rs]
      by (simp add: rest_def)
    with rest have "run \<noteq> []" by (simp add: run_def)
    with nd Cons show ?thesis by simp
  qed
  from a b c have "digit_run_at pre run post" by (simp add: digit_run_at_def)
  with s show ?thesis by blast
qed

text \<open>
  C2. For a proposal id with a value in the ledger, read and written without failure,
  \<^verbatim>\<open>CreateResult\<close> succeeds and stores the result at \<open>RESULT\<close> followed by the first run of
  digits of the proposal id: the id splits into a part without digits, that run, and a
  rest that is empty or starts with no digit, and the run is empty only when the id has
  no digit. Any such split gives the same run, so the key is a function of the proposal id
  alone. The stored value is the result with the proposal id, the key id and the
  re-keyed value; nothing but the key is changed in the ledger.
\<close>

theorem CreateResult_derived_id:
  assumes "state ctx proposalID = Some b"
      and "get_fails ctx proposalID = None"
      and "put_fails ctx (result_id proposalID) = None"
  shows "\<exists>pre digits post proposal.
           proposalID = pre @ digits @ post \<and> digit_run_at pre digits post
         \<and> (\<forall>pre' digits' post'. proposalID = pre' @ digits' @ post' \<and> digit_run_at pre' digits' post'
               \<longrightarrow> digits' = digits)
         \<and> result_id proposalID = ''RESULT'' @ digits
         \<and> FindProposal ctx proposalID = Inr proposal
         \<and> CreateResult lib ctx proposalID firstToken secondToken keyID modulo' =
             (None, ctx\<lparr>state := (state ctx)(''RESULT'' @ digits \<mapsto>
                json_Marshal_Result \<lparr>ProposalID = proposalID, KeyID_Result = keyID,
                  Value_Result = KeyUpdateFromString lib modulo' firstToken secondToken
                                   (Value_Proposal proposal)\<rparr>)\<rparr>)"
proof -
  obtain pre digits post where
    d: "proposalID = pre @ digits @ post" "digit_run_at pre digits post"
    using digit_run_exists by blast
  have rid: "result_id proposalID = ''RESULT'' @ digits"
    unfolding d(1) using d(2) by (rule result_id_run)
  have uniq: "\<forall>pre' digits' post'. proposalID = pre' @ digits' @ post' \<and> digit_run_at pre' digits' post'
               \<longrightarrow> digits' = digits"
  proof (intro allI impI, elim conjE)
    fix pre' digits' post'
    assume e: "proposalID = pre' @ digits' @ post'" and r: "digit_run_at pre' digits' post'"
    have "result_id proposalID = ''RESULT'' @ digits'"
      unfolding e using r by (rule result_id_run)
    with rid show "digits' = digits" by simp
  qed
  define proposal where "proposal = snd (json_Unmarshal Proposal_fields b new_Proposal)"
  have f: "FindProposal ctx proposalID = Inr proposal"
    unfolding proposal_def using assms(1,2) by (rule FindProposal_present)
  have c: "CreateResult lib ctx proposalID firstToken secondToken keyID modulo' =
             (None, ctx\<lparr>state := (state ctx)(''RESULT'' @ digits \<mapsto>
                json_Marshal_Result \<lparr>ProposalID = proposalID, KeyID_Result = keyID,
                  Value_Result = KeyUpdateFromString lib modulo' firstToken secondToken
                                   (Value_Proposal proposal)\<rparr>)\<rparr>)"
    using assms(3) by (simp add: CreateResult_def f PutState_ok rid)
  show ?thesis
    apply (rule exI [of _ pre], rule exI [of _ digits], rule exI [of _ post], rule exI [of _ proposal])
    using d uniq rid f c apply (intro conjI)
         apply assumption+
    done
qed


theorem CreateResult_derived_id_witness:
  "state proposal_stub ''P7x2'' \<noteq> None
   \<and> get_fails proposal_stub ''P7x2'' = None
   \<and> put_fails proposal_stub (result_id ''P7x2'') = None
   \<and> result_id ''P7x2'' = ''RESULT7''
   \<and> fst (CreateResult example_phe proposal_stub ''P7x2'' ''tA'' ''tB'' ''k2'' ''m'') = None
   \<and> state (snd (CreateResult example_phe proposal_stub ''P7x2'' ''tA'' ''tB'' ''k2'' ''m'')) ''RESULT7'' =
        Some (json_Marshal_Result \<lparr>ProposalID = ''P7x2'', KeyID_Result = ''k2'',
             Value_Result = KeyUpdateFromString example_phe ''m'' ''tA'' ''tB'' ''v''\<rparr>)"
proof -
  define p where "p = \<lparr>RequesterID = ''r1'', RequestedID = ''r2'',
                   PatientsIDs = ''s1,s2'', KeyID_Proposal = ''k1'', Value_Proposal = ''v''\<rparr>"
  have h1: "state proposal_stub ''P7x2'' = Some (json_Marshal_Proposal p)"
    by (simp add: proposal_stub_def p_def)
  have h2: "get_fails proposal_stub ''P7x2'' = None" by (simp add: proposal_stub_def)
  have h3: "put_fails proposal_stub (result_id ''P7x2'') = None" by (simp add: proposal_stub_def)
  have r: "result_id ''P7x2'' = ''RESULT7''" by (simp add: result_id_def is_digit_def)
  have f: "FindProposal proposal_stub ''P7x2'' = Inr p"
    using FindProposal_present [OF h1 h2] by (simp add: Unmarshal_Marshal_Proposal)
  from CreateResult_derived_id [OF h1 h2 h3, of example_phe "''tA''" "''tB''" "''k2''" "''m''"]
  obtain digits proposal where
    d: "result_id ''P7x2'' = ''RESULT'' @ digits" and g: "FindProposal proposal_stub ''P7x2'' = Inr proposal"
    and c: "CreateResult example_phe proposal_stub ''P7x2'' ''tA'' ''tB'' ''k2'' ''m'' =
             (None, proposal_stub\<lparr>state := (state proposal_stub)(''RESULT'' @ digits \<mapsto>
                json_Marshal_Result \<lparr>ProposalID = ''P7x2'', KeyID_Result = ''k2'',
                  Value_Result = KeyUpdateFromString example_phe ''m'' ''tA'' ''tB''
                                   (Value_Proposal proposal)\<rparr>)\<rparr>)"
    by (elim exE conjE)
  from d r have dg: "''RESULT'' @ digits = ''RESULT7''" by simp
  from f g have pv: "Value_Proposal proposal = ''v''" by (simp add: p_def)
  have c1: "fst (CreateResult example_phe proposal_stub ''P7x2'' ''tA'' ''tB'' ''k2'' ''m'') = None"
    by (simp only: c fst_conv)
  have c2: "state (snd (CreateResult example_phe proposal_stub ''P7x2'' ''tA'' ''tB'' ''k2'' ''m'')) ''RESULT7'' =
        Some (json_Marshal_Result \<lparr>ProposalID = ''P7x2'', KeyID_Result = ''k2'',
             Value_Result = KeyUpdateFromString example_phe ''m'' ''tA'' ''tB'' ''v''\<rparr>)"
    by (simp only: c dg pv) simp
  from h1 have h1': "state proposal_stub ''P7x2'' \<noteq> None" by simp
  from h1' h2 h3 r c1 c2 show ?thesis by (intro conjI)
qed

section \<open>The patient registry and the queries\<close>


text \<open>
  C3, as the specification states it, fails: the three queries drop the error of
  \<^verbatim>\<open>json.Unmarshal\<close>. On a ledger value that is no JSON the decoder reports a syntax
  error, and each query still returns successfully, with the zero-valued entity.
\<close>

theorem Find_DecodeError_counterexample:
  "state example_stub ''x'' = Some Malformed
   \<and> fst (json_Unmarshal Patient_fields Malformed new_Patient) = Some SyntaxError
   \<and> fst (json_Unmarshal Proposal_fields Malformed new_Proposal) = Some SyntaxError
   \<and> fst (json_Unmarshal Result_fields Malformed new_Result) = Some SyntaxError
   \<and> FindPatient example_stub ''x'' = Inr new_Patient
   \<and> FindProposal example_stub ''x'' = Inr new_Proposal
   \<and> FindResult example_stub ''x'' = Inr new_Result"
  by (simp add: example_stub_def FindPatient_def FindProposal_def FindResult_def GetState_def)

text \<open>
  C3, amended. For every id whose read does not fail and gives bytes, \<^verbatim>\<open>FindPatient\<close>,
  \<^verbatim>\<open>FindProposal\<close> and \<^verbatim>\<open>FindResult\<close> succeed whether or not the bytes parse: each returns
  the entity as \<^verbatim>\<open>json.Unmarshal\<close> leaves it, which is the zero-valued entity for bytes that
  are no JSON. None of them fails with a \<open>DecodeError\<close> on any ledger and id.
\<close>

theorem Find_never_DecodeError:
  "(GetState ctx id' = Inr (Some b) \<longrightarrow>
        FindPatient ctx id' = Inr (snd (json_Unmarshal Patient_fields b new_Patient))
      \<and> FindProposal ctx id' = Inr (snd (json_Unmarshal Proposal_fields b new_Proposal))
      \<and> FindResult ctx id' = Inr (snd (json_Unmarshal Result_fields b new_Result)))
   \<and> (GetState ctx id' = Inr (Some Malformed) \<longrightarrow>
        FindPatient ctx id' = Inr new_Patient
      \<and> FindProposal ctx id' = Inr new_Proposal
      \<and> FindResult ctx id' = Inr new_Result)
   \<and> FindPatient ctx id' \<noteq> Inl (DecodeError m)
   \<and> FindProposal ctx id' \<noteq> Inl (DecodeError m)
   \<and> FindResult ctx id' \<noteq> Inl (DecodeError m)"
  by (simp add: FindPatient_def FindProposal_def FindResult_def split: sum.splits option.splits)

theorem Find_never_DecodeError_witness:
  "GetState example_stub ''x'' = Inr (Some Malformed)
   \<and> FindPatient example_stub ''x'' = Inr new_Patient
   \<and> FindProposal example_stub ''x'' = Inr new_Proposal
   \<and> FindResult example_stub ''x'' = Inr new_Result
   \<and> FindPatient example_stub ''x'' \<noteq> Inl (DecodeError ''m'')"
proof -
  have h: "GetState example_stub ''x'' = Inr (Some Malformed)"
    by (simp add: GetState_def example_stub_def)
  from Find_never_DecodeError [of example_stub "''x''" Malformed "''m''"] h
  show ?thesis by simp
qed



text \<open>
  C9. For an id without value in the ledger, read without failure, \<^verbatim>\<open>UpdatePatient\<close>
  fails with \<open>NotFoundError\<close> of that id and returns the ledger as it was: no key is written.
\<close>

theorem UpdatePatient_missing:
  assumes "state ctx id' = None" and "get_fails ctx id' = None"
  shows "UpdatePatient ctx id' name preExistingConditions diagnosisID statusID keyID =
           (Some (NotFoundError id'), ctx)"
  using assms by (simp add: UpdatePatient_def FindPatient_absent)

theorem UpdatePatient_missing_witness:
  "state example_stub ''s9'' = None \<and> get_fails example_stub ''s9'' = None
   \<and> UpdatePatient example_stub ''s9'' ''Eve'' ''c9'' ''d9'' ''t9'' ''k1'' =
           (Some (NotFoundError ''s9''), example_stub)"
proof -
  have h1: "state example_stub ''s9'' = None" by (simp add: example_stub_def)
  have h2: "get_fails example_stub ''s9'' = None" by (simp add: example_stub_def)
  from UpdatePatient_missing [OF h1 h2, of "''Eve''" "''c9''" "''d9''" "''t9''" "''k1''"] h1 h2
  show ?thesis by (intro conjI)
qed

section \<open>What one call does to the ledger\<close>

lemma CreateProposal_resolved:
  assumes "list_all2 (\<lambda>i p. FindPatient ctx i = Inr p) (strings_Split patientsIDs (CHR '','')) ps"
  shows "CreateProposal lib ctx id' requesterID requestedID patientsIDs keyID modulo' =
           PutState ctx id' (json_Marshal_Proposal
             \<lparr>RequesterID = requesterID, RequestedID = requestedID, PatientsIDs = patientsIDs,
              KeyID_Proposal = keyID,
              Value_Proposal = MeanFromString lib modulo' (map PreExistingConditions ps)\<rparr>)"
proof -
  have "patients_values ctx [] (strings_Split patientsIDs (CHR '','')) = Inr ([] @ map PreExistingConditions ps)"
    using assms by (rule patients_values_all)
  then show ?thesis by (simp add: CreateProposal_def)
qed

lemma patients_values_error:
  "patients_values ctx ms pids = Inl err \<Longrightarrow> \<exists>i \<in> set pids. FindPatient ctx i = Inl err"
proof (induction pids arbitrary: ms)
  case Nil
  then show ?case by simp
next
  case (Cons i pids)
  show ?case
  proof (cases "FindPatient ctx i")
    case (Inl e)
    with Cons.prems show ?thesis by simp
  next
    case (Inr p)
    with Cons.prems have "patients_values ctx (ms @ [PreExistingConditions p]) pids = Inl err"
      by simp
    from Cons.IH [OF this] show ?thesis by simp
  qed
qed

lemma CreateProposal_unresolved:
  "patients_values ctx [] (strings_Split patientsIDs (CHR '','')) = Inl err \<Longrightarrow>
   CreateProposal lib ctx id' requesterID requestedID patientsIDs keyID modulo' = (Some err, ctx)"
  by (simp add: CreateProposal_def)

lemma CreateResult_found:
  "FindProposal ctx proposalID = Inr proposal \<Longrightarrow>
   CreateResult lib ctx proposalID firstToken secondToken keyID modulo' =
     PutState ctx (result_id proposalID) (json_Marshal_Result
       \<lparr>ProposalID = proposalID, KeyID_Result = keyID,
        Value_Result = KeyUpdateFromString lib modulo' firstToken secondToken (Value_Proposal proposal)\<rparr>)"
  by (simp add: CreateResult_def)

lemma CreateResult_not_found:
  "FindProposal ctx proposalID = Inl err \<Longrightarrow>
   CreateResult lib ctx proposalID firstToken secondToken keyID modulo' = (Some err, ctx)"
  by (simp add: CreateResult_def)

lemma UpdatePatient_found:
  "FindPatient ctx id' = Inr patient \<Longrightarrow>
   UpdatePatient ctx id' name preExistingConditions diagnosisID statusID keyID =
     PutState ctx id' (json_Marshal_Patient
       \<lparr>Name = name, PreExistingConditions = preExistingConditions, DiagnosisID = diagnosisID,
        StatusID = statusID, KeyID = keyID\<rparr>)"
  by (simp add: UpdatePatient_def json_Marshal_Patient_def)

lemma UpdatePatient_not_found:
  "FindPatient ctx id' = Inl err \<Longrightarrow>
   UpdatePatient ctx id' name preExistingConditions diagnosisID statusID keyID = (Some err, ctx)"
  by (simp add: UpdatePatient_def)

text \<open>What one call leaves of the ledger: the ledger itself, or the ledger with one key set.\<close>

lemma PutState_shape:
  "snd (PutState ctx key val) = ctx \<or> snd (PutState ctx key val) = ctx\<lparr>state := (state ctx)(key \<mapsto> val)\<rparr>"
  by (simp add: PutState_snd)

lemma CreatePatient_shape:
  "\<exists>v. snd (CreatePatient ctx id' name preExistingConditions diagnosisID statusID keyID) = ctx
     \<or> snd (CreatePatient ctx id' name preExistingConditions diagnosisID statusID keyID) =
         ctx\<lparr>state := (state ctx)(id' \<mapsto> v)\<rparr>"
  unfolding CreatePatient_def Let_def using PutState_shape by blast

lemma UpdatePatient_shape:
  "\<exists>v. snd (UpdatePatient ctx id' name preExistingConditions diagnosisID statusID keyID) = ctx
     \<or> snd (UpdatePatient ctx id' name preExistingConditions diagnosisID statusID keyID) =
         ctx\<lparr>state := (state ctx)(id' \<mapsto> v)\<rparr>"
proof (cases "FindPatient ctx id'")
  case (Inl err)
  then show ?thesis by (simp add: UpdatePatient_not_found)
next
  case (Inr patient)
  then show ?thesis unfolding UpdatePatient_found [OF Inr] using PutState_shape by blast
qed

lemma CreateProposal_shape:
  "\<exists>v. snd (CreateProposal lib ctx id' requesterID requestedID patientsIDs keyID modulo') = ctx
     \<or> snd (CreateProposal lib ctx id' requesterID requestedID patientsIDs keyID modulo') =
         ctx\<lparr>state := (state ctx)(id' \<mapsto> v)\<rparr>"
proof (cases "patients_values ctx [] (strings_Split patientsIDs (CHR '',''))")
  case (Inl err)
  then show ?thesis by (simp add: CreateProposal_unresolved)
next
  case (Inr ms)
  then show ?thesis unfolding CreateProposal_def Let_def using PutState_shape by (simp, blast)
qed

lemma CreateResult_shape:
  "\<exists>v. snd (CreateResult lib ctx proposalID firstToken secondToken keyID modulo') = ctx
     \<or> snd (CreateResult lib ctx proposalID firstToken secondToken keyID modulo') =
         ctx\<lparr>state := (state ctx)(result_id proposalID \<mapsto> v)\<rparr>"
proof (cases "FindProposal ctx proposalID")
  case (Inl err)
  then show ?thesis by (simp add: CreateResult_not_found)
next
  case (Inr proposal)
  then show ?thesis unfolding CreateResult_found [OF Inr] using PutState_shape by blast
qed

lemma shape_frame:
  "ctx' = ctx \<or> ctx' = ctx\<lparr>state := (state ctx)(key \<mapsto> v)\<rparr> \<Longrightarrow>
   get_fails ctx' = get_fails ctx \<and> put_fails ctx' = put_fails ctx \<and> (k \<noteq> key \<longrightarrow> state ctx' k = state ctx k)"
  by auto

section \<open>The aggregate of a proposal\<close>

lemma example_patients:
  "FindPatient example_stub ''s1'' = Inr \<lparr>Name = ''Ann'', PreExistingConditions = ''c1'',
                   DiagnosisID = ''d1'', StatusID = ''t1'', KeyID = ''k1''\<rparr>"
  "FindPatient example_stub ''s2'' = Inr \<lparr>Name = ''Bob'', PreExistingConditions = ''c2'',
                   DiagnosisID = ''d2'', StatusID = ''t2'', KeyID = ''k1''\<rparr>"
  "FindPatient example_stub ''s3'' = Inr \<lparr>Name = ''Cy'', PreExistingConditions = ''c3'',
                   DiagnosisID = ''d3'', StatusID = ''t3'', KeyID = ''k1''\<rparr>"
  "FindPatient example_stub ''x'' = Inr new_Patient"
  by (simp_all add: FindPatient_def GetState_def example_stub_def Unmarshal_Marshal_Patient)



section \<open>The frame of the mutating operations\<close>

text \<open>
  C10. Each of \<^verbatim>\<open>CreatePatient\<close>, \<^verbatim>\<open>UpdatePatient\<close>, \<^verbatim>\<open>CreateProposal\<close> and
  \<^verbatim>\<open>CreateResult\<close> leaves the ledger as it was or sets one key in it: the id supplied by
  the caller for the first three, the derived result id for the last. Every other key
  holds after the call what it held before.
\<close>

theorem one_key_per_invocation:
  "(\<exists>v. snd (CreatePatient ctx id' name preExistingConditions diagnosisID statusID keyID) = ctx
      \<or> snd (CreatePatient ctx id' name preExistingConditions diagnosisID statusID keyID) =
          ctx\<lparr>state := (state ctx)(id' \<mapsto> v)\<rparr>)
   \<and> (k \<noteq> id' \<longrightarrow>
        state (snd (CreatePatient ctx id' name preExistingConditions diagnosisID statusID keyID)) k = state ctx k)
   \<and> (\<exists>v. snd (UpdatePatient ctx id' name preExistingConditions diagnosisID statusID keyID) = ctx
      \<or> snd (UpdatePatient ctx id' name preExistingConditions diagnosisID statusID keyID) =
          ctx\<lparr>state := (state ctx)(id' \<mapsto> v)\<rparr>)
   \<and> (k \<noteq> id' \<longrightarrow>
        state (snd (UpdatePatient ctx id' name preExistingConditions diagnosisID statusID keyID)) k = state ctx k)
   \<and> (\<exists>v. snd (CreateProposal lib ctx id' requesterID requestedID patientsIDs keyID modulo') = ctx
      \<or> snd (CreateProposal lib ctx id' requesterID requestedID patientsIDs keyID modulo') =
          ctx\<lparr>state := (state ctx)(id' \<mapsto> v)\<rparr>)
   \<and> (k \<noteq> id' \<longrightarrow>
        state (snd (CreateProposal lib ctx id' requesterID requestedID patientsIDs keyID modulo')) k = state ctx k)
   \<and> (\<exists>v. snd (CreateResult lib ctx proposalID firstToken secondToken keyID modulo') = ctx
      \<or> snd (CreateResult lib ctx proposalID firstToken secondToken keyID modulo') =
          ctx\<lparr>state := (state ctx)(result_id proposalID \<mapsto> v)\<rparr>)
   \<and> (k \<noteq> result_id proposalID \<longrightarrow>
        state (snd (CreateResult lib ctx proposalID firstToken secondToken keyID modulo')) k = state ctx k)"
proof -
  note a = CreatePatient_shape [of ctx id' name preExistingConditions diagnosisID statusID keyID]
  note b = UpdatePatient_shape [of ctx id' name preExistingConditions diagnosisID statusID keyID]
  note c = CreateProposal_shape [of lib ctx id' requesterID requestedID patientsIDs keyID modulo']
  note d = CreateResult_shape [of lib ctx proposalID firstToken secondToken keyID modulo']
  from a have a': "k \<noteq> id' \<longrightarrow>
        state (snd (CreatePatient ctx id' name preExistingConditions diagnosisID statusID keyID)) k = state ctx k"
    using shape_frame by blast
  from b have b': "k \<noteq> id' \<longrightarrow>
        state (snd (UpdatePatient ctx id' name preExistingConditions diagnosisID statusID keyID)) k = state ctx k"
    using shape_frame by blast
  from c have c': "k \<noteq> id' \<longrightarrow>
        state (snd (CreateProposal lib ctx id' requesterID requestedID patientsIDs keyID modulo')) k = state ctx k"
    using shape_frame by blast
  from d have d': "k \<noteq> result_id proposalID \<longrightarrow>
        state (snd (CreateResult lib ctx proposalID firstToken secondToken keyID modulo')) k = state ctx k"
    using shape_frame by blast
  from a a' b b' c c' d d' show ?thesis by (intro conjI)
qed

theorem one_key_per_invocation_witness:
  "''s2'' \<noteq> ''s1'' \<and> ''P7x2'' \<noteq> result_id ''P7x2''
   \<and> state (snd (CreatePatient example_stub ''s1'' ''Ann'' ''c9'' ''d1'' ''t1'' ''k1'')) ''s2'' = state example_stub ''s2''
   \<and> state (snd (UpdatePatient example_stub ''s1'' ''Ann'' ''c9'' ''d1'' ''t1'' ''k1'')) ''s2'' = state example_stub ''s2''
   \<and> state (snd (CreateProposal example_phe example_stub ''s1'' ''r1'' ''r2'' ''s2,s3'' ''k1'' ''m'')) ''s2'' = state example_stub ''s2''
   \<and> state (snd (CreateResult example_phe proposal_stub ''P7x2'' ''tA'' ''tB'' ''k1'' ''m'')) ''P7x2'' = state proposal_stub ''P7x2''"
proof -
  have h1: "''s2'' \<noteq> ''s1''" by simp
  have h2: "''P7x2'' \<noteq> result_id ''P7x2''" by (simp add: result_id_def)
  note a = one_key_per_invocation [of example_stub "''s1''" "''Ann''" "''c9''" "''d1''" "''t1''" "''k1''" "''s2''"
              example_phe "''r1''" "''r2''" "''s2,s3''" "''m''" "''P7x2''" "''tA''" "''tB''"]
  note b = one_key_per_invocation [of proposal_stub "''s1''" "''Ann''" "''c9''" "''d1''" "''t1''" "''k1''" "''P7x2''"
              example_phe "''r1''" "''r2''" "''s2,s3''" "''m''" "''P7x2''" "''tA''" "''tB''"]
  from a h1 have a1: "state (snd (CreatePatient example_stub ''s1'' ''Ann'' ''c9'' ''d1'' ''t1'' ''k1'')) ''s2'' = state example_stub ''s2''"
    by blast
  from a h1 have a2: "state (snd (UpdatePatient example_stub ''s1'' ''Ann'' ''c9'' ''d1'' ''t1'' ''k1'')) ''s2'' = state example_stub ''s2''"
    by blast
  from a h1 have a3: "state (snd (CreateProposal example_phe example_stub ''s1'' ''r1'' ''r2'' ''s2,s3'' ''k1'' ''m'')) ''s2'' = state example_stub ''s2''"
    by blast
  from b h2 have a4: "state (snd (CreateResult example_phe proposal_stub ''P7x2'' ''tA'' ''tB'' ''k1'' ''m'')) ''P7x2'' = state proposal_stub ''P7x2''"
    by blast
  from h1 h2 a1 a2 a3 a4 show ?thesis by (intro conjI)
qed

section \<open>The errors of the two engines\<close>

lemma PutState_error:
  "fst (PutState ctx key val) = Some err \<Longrightarrow> \<exists>msg. put_fails ctx key = Some msg \<and> err = PersistenceError msg"
  by (auto simp: PutState_def split: option.splits)

lemma PutState_failed:
  "fst (PutState ctx key val) \<noteq> None \<Longrightarrow> snd (PutState ctx key val) = ctx"
  by (auto simp: PutState_def split: option.splits)

lemma CreateProposal_error:
  assumes "fst (CreateProposal lib ctx id' requesterID requestedID patientsIDs keyID modulo') = Some err"
  shows "(\<exists>i \<in> set (strings_Split patientsIDs (CHR '','')). FindPatient ctx i = Inl err)
       \<or> (\<exists>msg. put_fails ctx id' = Some msg \<and> err = PersistenceError msg)"
proof (cases "patients_values ctx [] (strings_Split patientsIDs (CHR '',''))")
  case (Inl e)
  with assms have "e = err" by (simp add: CreateProposal_unresolved)
  with Inl show ?thesis using patients_values_error by blast
next
  case (Inr ms)
  with assms show ?thesis by (simp add: CreateProposal_def PutState_error)
qed

lemma CreateResult_error:
  assumes "fst (CreateResult lib ctx proposalID firstToken secondToken keyID modulo') = Some err"
  shows "FindProposal ctx proposalID = Inl err
       \<or> (\<exists>msg. put_fails ctx (result_id proposalID) = Some msg \<and> err = PersistenceError msg)"
proof (cases "FindProposal ctx proposalID")
  case (Inl e)
  with assms show ?thesis by (simp add: CreateResult_not_found)
next
  case (Inr proposal)
  with assms show ?thesis by (simp add: CreateResult_found PutState_error)
qed

lemma CreateProposal_no_OracleError:
  "fst (CreateProposal lib ctx id' requesterID requestedID patientsIDs keyID modulo') \<noteq> Some (OracleError m)"
proof
  assume "fst (CreateProposal lib ctx id' requesterID requestedID patientsIDs keyID modulo') = Some (OracleError m)"
  from CreateProposal_error [OF this] show False
    by (auto simp: FindPatient_error split: option.splits)
qed

lemma CreateResult_no_OracleError:
  "fst (CreateResult lib ctx proposalID firstToken secondToken keyID modulo') \<noteq> Some (OracleError m)"
proof
  assume "fst (CreateResult lib ctx proposalID firstToken secondToken keyID modulo') = Some (OracleError m)"
  from CreateResult_error [OF this] show False
    by (auto simp: FindProposal_error split: option.splits)
qed

text \<open>
  C6, as the specification states it, fails: the two functions of the crypto library
  return a string and nothing else, so the contract has no failure of the library to
  report. With a library that answers the empty string, on a list of patients one of
  whose values is no JSON, \<^verbatim>\<open>CreateProposal\<close> succeeds and stores the empty value, and so
  does \<^verbatim>\<open>CreateResult\<close>; no library, ledger and arguments make either of them return an
  \<open>OracleError\<close>.
\<close>

theorem OracleError_counterexample:
  "fst (CreateProposal empty_phe example_stub ''P1'' ''r1'' ''r2'' ''s1,x'' ''k2'' ''m'') = None
   \<and> state (snd (CreateProposal empty_phe example_stub ''P1'' ''r1'' ''r2'' ''s1,x'' ''k2'' ''m'')) ''P1'' =
       Some (json_Marshal_Proposal \<lparr>RequesterID = ''r1'', RequestedID = ''r2'', PatientsIDs = ''s1,x'',
               KeyID_Proposal = ''k2'', Value_Proposal = []\<rparr>)
   \<and> fst (CreateResult empty_phe proposal_stub ''P7x2'' ''tA'' ''tB'' ''k2'' ''m'') = None
   \<and> state (snd (CreateResult empty_phe proposal_stub ''P7x2'' ''tA'' ''tB'' ''k2'' ''m'')) ''RESULT7'' =
       Some (json_Marshal_Result \<lparr>ProposalID = ''P7x2'', KeyID_Result = ''k2'', Value_Result = []\<rparr>)
   \<and> \<not> (\<exists>lib ctx id' requesterID requestedID patientsIDs keyID modulo' m.
          fst (CreateProposal lib ctx id' requesterID requestedID patientsIDs keyID modulo') = Some (OracleError m))
   \<and> \<not> (\<exists>lib ctx proposalID firstToken secondToken keyID modulo' m.
          fst (CreateResult lib ctx proposalID firstToken secondToken keyID modulo') = Some (OracleError m))"
proof -
  have l: "list_all2 (\<lambda>i p. FindPatient example_stub i = Inr p) (strings_Split ''s1,x'' (CHR '',''))
     [\<lparr>Name = ''Ann'', PreExistingConditions = ''c1'', DiagnosisID = ''d1'', StatusID = ''t1'', KeyID = ''k1''\<rparr>,
      new_Patient]"
    by (simp add: example_patients)
  have p: "put_fails example_stub ''P1'' = None" by (simp add: example_stub_def)
  have c: "CreateProposal empty_phe example_stub ''P1'' ''r1'' ''r2'' ''s1,x'' ''k2'' ''m'' =
       (None, example_stub\<lparr>state := (state example_stub)(''P1'' \<mapsto>
          json_Marshal_Proposal \<lparr>RequesterID = ''r1'', RequestedID = ''r2'', PatientsIDs = ''s1,x'',
               KeyID_Proposal = ''k2'', Value_Proposal = []\<rparr>)\<rparr>)"
    unfolding CreateProposal_resolved [OF l] by (simp add: PutState_ok [OF p] empty_phe_def)
  have f: "FindProposal proposal_stub ''P7x2'' = Inr \<lparr>RequesterID = ''r1'', RequestedID = ''r2'',
                   PatientsIDs = ''s1,s2'', KeyID_Proposal = ''k1'', Value_Proposal = ''v''\<rparr>"
    by (simp add: FindProposal_def GetState_def proposal_stub_def Unmarshal_Marshal_Proposal)
  have r: "result_id ''P7x2'' = ''RESULT7''" by (simp add: result_id_def is_digit_def)
  have q: "put_fails proposal_stub ''RESULT7'' = None" by (simp add: proposal_stub_def)
  have d: "CreateResult empty_phe proposal_stub ''P7x2'' ''tA'' ''tB'' ''k2'' ''m'' =
       (None, proposal_stub\<lparr>state := (state proposal_stub)(''RESULT7'' \<mapsto>
          json_Marshal_Result \<lparr>ProposalID = ''P7x2'', KeyID_Result = ''k2'', Value_Result = []\<rparr>)\<rparr>)"
    unfolding CreateResult_found [OF f] r by (simp add: PutState_ok [OF q] empty_phe_def)
  have n1: "\<not> (\<exists>lib ctx id' requesterID requestedID patientsIDs keyID modulo' m.
          fst (CreateProposal lib ctx id' requesterID requestedID patientsIDs keyID modulo') = Some (OracleError m))"
    using CreateProposal_no_OracleError by blast
  have n2: "\<not> (\<exists>lib ctx proposalID firstToken secondToken keyID modulo' m.
          fst (CreateResult lib ctx proposalID firstToken secondToken keyID modulo') = Some (OracleError m))"
    using CreateResult_no_OracleError by blast
  have c1: "fst (CreateProposal empty_phe example_stub ''P1'' ''r1'' ''r2'' ''s1,x'' ''k2'' ''m'') = None"
    by (simp only: c fst_conv)
  have c2: "state (snd (CreateProposal empty_phe example_stub ''P1'' ''r1'' ''r2'' ''s1,x'' ''k2'' ''m'')) ''P1'' =
       Some (json_Marshal_Proposal \<lparr>RequesterID = ''r1'', RequestedID = ''r2'', PatientsIDs = ''s1,x'',
               KeyID_Proposal = ''k2'', Value_Proposal = []\<rparr>)"
    by (simp only: c) simp
  have d1: "fst (CreateResult empty_phe proposal_stub ''P7x2'' ''tA'' ''tB'' ''k2'' ''m'') = None"
    by (simp only: d fst_conv)
  have d2: "state (snd (CreateResult empty_phe proposal_stub ''P7x2'' ''tA'' ''tB'' ''k2'' ''m'')) ''RESULT7'' =
       Some (json_Marshal_Result \<lparr>ProposalID = ''P7x2'', KeyID_Result = ''k2'', Value_Result = []\<rparr>)"
    by (simp only: d) simp
  from c1 c2 d1 d2 n1 n2 show ?thesis by (intro conjI)
qed

text \<open>
  C6, amended. \<^verbatim>\<open>CreateProposal\<close> and \<^verbatim>\<open>CreateResult\<close> have no error outcome for the
  crypto library. An error of \<^verbatim>\<open>CreateProposal\<close> is the error of \<^verbatim>\<open>FindPatient\<close> on one of
  the listed ids or the \<open>PersistenceError\<close> of the write of the proposal id; an error of
  \<^verbatim>\<open>CreateResult\<close> is the error of \<^verbatim>\<open>FindProposal\<close> or the \<open>PersistenceError\<close> of the write
  of the result id; neither is ever an \<open>OracleError\<close>. Once the patients, or the proposal,
  are found, the call is the write of the entity whose value is the string the library
  returned, whatever that string is.
\<close>

theorem oracle_output_is_stored:
  "(\<forall>err. fst (CreateProposal lib ctx id' requesterID requestedID patientsIDs keyID modulo') = Some err \<longrightarrow>
        (\<exists>i \<in> set (strings_Split patientsIDs (CHR '','')). FindPatient ctx i = Inl err)
      \<or> (\<exists>msg. put_fails ctx id' = Some msg \<and> err = PersistenceError msg))
   \<and> (\<forall>err. fst (CreateResult lib ctx proposalID firstToken secondToken keyID modulo') = Some err \<longrightarrow>
        FindProposal ctx proposalID = Inl err
      \<or> (\<exists>msg. put_fails ctx (result_id proposalID) = Some msg \<and> err = PersistenceError msg))
   \<and> fst (CreateProposal lib ctx id' requesterID requestedID patientsIDs keyID modulo') \<noteq> Some (OracleError m)
   \<and> fst (CreateResult lib ctx proposalID firstToken secondToken keyID modulo') \<noteq> Some (OracleError m)
   \<and> (list_all2 (\<lambda>i p. FindPatient ctx i = Inr p) (strings_Split patientsIDs (CHR '','')) ps \<longrightarrow>
        CreateProposal lib ctx id' requesterID requestedID patientsIDs keyID modulo' =
          PutState ctx id' (json_Marshal_Proposal
             \<lparr>RequesterID = requesterID, RequestedID = requestedID, PatientsIDs = patientsIDs,
              KeyID_Proposal = keyID,
              Value_Proposal = MeanFromString lib modulo' (map PreExistingConditions ps)\<rparr>))
   \<and> (FindProposal ctx proposalID = Inr proposal \<longrightarrow>
        CreateResult lib ctx proposalID firstToken secondToken keyID modulo' =
          PutState ctx (result_id proposalID) (json_Marshal_Result
            \<lparr>ProposalID = proposalID, KeyID_Result = keyID,
             Value_Result = KeyUpdateFromString lib modulo' firstToken secondToken (Value_Proposal proposal)\<rparr>))"
proof (intro conjI allI impI)
  fix err
  assume "fst (CreateProposal lib ctx id' requesterID requestedID patientsIDs keyID modulo') = Some err"
  then show "(\<exists>i \<in> set (strings_Split patientsIDs (CHR '','')). FindPatient ctx i = Inl err)
      \<or> (\<exists>msg. put_fails ctx id' = Some msg \<and> err = PersistenceError msg)"
    by (rule CreateProposal_error)
next
  fix err
  assume "fst (CreateResult lib ctx proposalID firstToken secondToken keyID modulo') = Some err"
  then show "FindProposal ctx proposalID = Inl err
      \<or> (\<exists>msg. put_fails ctx (result_id proposalID) = Some msg \<and> err = PersistenceError msg)"
    by (rule CreateResult_error)
next
  show "fst (CreateProposal lib ctx id' requesterID requestedID patientsIDs keyID modulo') \<noteq> Some (OracleError m)"
    by (rule CreateProposal_no_OracleError)
next
  show "fst (CreateResult lib ctx proposalID firstToken secondToken keyID modulo') \<noteq> Some (OracleError m)"
    by (rule CreateResult_no_OracleError)
next
  assume "list_all2 (\<lambda>i p. FindPatient ctx i = Inr p) (strings_Split patientsIDs (CHR '','')) ps"
  then show "CreateProposal lib ctx id' requesterID requestedID patientsIDs keyID modulo' =
          PutState ctx id' (json_Marshal_Proposal
             \<lparr>RequesterID = requesterID, RequestedID = requestedID, PatientsIDs = patientsIDs,
              KeyID_Proposal = keyID,
              Value_Proposal = MeanFromString lib modulo' (map PreExistingConditions ps)\<rparr>)"
    by (rule CreateProposal_resolved)
next
  assume "FindProposal ctx proposalID = Inr proposal"
  then show "CreateResult lib ctx proposalID firstToken secondToken keyID modulo' =
          PutState ctx (result_id proposalID) (json_Marshal_Result
            \<lparr>ProposalID = proposalID, KeyID_Result = keyID,
             Value_Result = KeyUpdateFromString lib modulo' firstToken secondToken (Value_Proposal proposal)\<rparr>)"
    by (rule CreateResult_found)
qed


theorem oracle_output_is_stored_witness:
  "fst (CreateProposal example_phe example_stub ''P1'' ''r1'' ''r2'' ''s1,s9'' ''k2'' ''m'') = Some (NotFoundError ''s9'')
   \<and> ((\<exists>i \<in> set (strings_Split ''s1,s9'' (CHR '','')). FindPatient example_stub i = Inl (NotFoundError ''s9''))
      \<or> (\<exists>msg. put_fails example_stub ''P1'' = Some msg \<and> NotFoundError ''s9'' = PersistenceError msg))
   \<and> fst (CreateResult example_phe example_stub ''P7x2'' ''tA'' ''tB'' ''k2'' ''m'') = Some (NotFoundError ''P7x2'')
   \<and> (FindProposal example_stub ''P7x2'' = Inl (NotFoundError ''P7x2'')
      \<or> (\<exists>msg. put_fails example_stub (result_id ''P7x2'') = Some msg \<and> NotFoundError ''P7x2'' = PersistenceError msg))
   \<and> list_all2 (\<lambda>i p. FindPatient example_stub i = Inr p) (strings_Split ''s1,x'' (CHR '',''))
        [\<lparr>Name = ''Ann'', PreExistingConditions = ''c1'', DiagnosisID = ''d1'', StatusID = ''t1'', KeyID = ''k1''\<rparr>,
         new_Patient]
   \<and> CreateProposal empty_phe example_stub ''P1'' ''r1'' ''r2'' ''s1,x'' ''k2'' ''m'' =
        PutState example_stub ''P1'' (json_Marshal_Proposal
          \<lparr>RequesterID = ''r1'', RequestedID = ''r2'', PatientsIDs = ''s1,x'', KeyID_Proposal = ''k2'',
           Value_Proposal = MeanFromString empty_phe ''m'' [''c1'', []]\<rparr>)
   \<and> FindProposal proposal_stub ''P7x2'' = Inr \<lparr>RequesterID = ''r1'', RequestedID = ''r2'',
                   PatientsIDs = ''s1,s2'', KeyID_Proposal = ''k1'', Value_Proposal = ''v''\<rparr>
   \<and> CreateResult empty_phe proposal_stub ''P7x2'' ''tA'' ''tB'' ''k2'' ''m'' =
        PutState proposal_stub (result_id ''P7x2'') (json_Marshal_Result
          \<lparr>ProposalID = ''P7x2'', KeyID_Result = ''k2'',
           Value_Result = KeyUpdateFromString empty_phe ''m'' ''tA'' ''tB'' ''v''\<rparr>)"
proof -
  have s9: "FindPatient example_stub ''s9'' = Inl (NotFoundError ''s9'')"
    by (simp add: FindPatient_def GetState_def example_stub_def)
  have e1: "fst (CreateProposal example_phe example_stub ''P1'' ''r1'' ''r2'' ''s1,s9'' ''k2'' ''m'') = Some (NotFoundError ''s9'')"
    by (simp add: CreateProposal_def example_patients s9)
  have p7: "FindProposal example_stub ''P7x2'' = Inl (NotFoundError ''P7x2'')"
    by (simp add: FindProposal_def GetState_def example_stub_def)
  have e2: "fst (CreateResult example_phe example_stub ''P7x2'' ''tA'' ''tB'' ''k2'' ''m'') = Some (NotFoundError ''P7x2'')"
    by (simp add: CreateResult_not_found [OF p7])
  have l: "list_all2 (\<lambda>i p. FindPatient example_stub i = Inr p) (strings_Split ''s1,x'' (CHR '',''))
     [\<lparr>Name = ''Ann'', PreExistingConditions = ''c1'', DiagnosisID = ''d1'', StatusID = ''t1'', KeyID = ''k1''\<rparr>,
      new_Patient]"
    by (simp add: example_patients)
  have f: "FindProposal proposal_stub ''P7x2'' = Inr \<lparr>RequesterID = ''r1'', RequestedID = ''r2'',
                   PatientsIDs = ''s1,s2'', KeyID_Proposal = ''k1'', Value_Proposal = ''v''\<rparr>"
    by (simp add: FindProposal_def GetState_def proposal_stub_def Unmarshal_Marshal_Proposal)
  note a = oracle_output_is_stored [where lib = example_phe and ctx = example_stub and id' = "''P1''"
      and requesterID = "''r1''" and requestedID = "''r2''" and patientsIDs = "''s1,s9''" and keyID = "''k2''"
      and modulo' = "''m''" and proposalID = "''P7x2''" and firstToken = "''tA''" and secondToken = "''tB''"]
  note b = oracle_output_is_stored [where lib = empty_phe and ctx = example_stub and id' = "''P1''"
      and requesterID = "''r1''" and requestedID = "''r2''" and patientsIDs = "''s1,x''" and keyID = "''k2''"
      and modulo' = "''m''" and ps = "[\<lparr>Name = ''Ann'', PreExistingConditions = ''c1'', DiagnosisID = ''d1'',
         StatusID = ''t1'', KeyID = ''k1''\<rparr>, new_Patient]"]
  note c = oracle_output_is_stored [where lib = empty_phe and ctx = proposal_stub and keyID = "''k2''"
      and modulo' = "''m''" and proposalID = "''P7x2''" and firstToken = "''tA''" and secondToken = "''tB''"
      and proposal = "\<lparr>RequesterID = ''r1'', RequestedID = ''r2'',
                   PatientsIDs = ''s1,s2'', KeyID_Proposal = ''k1'', Value_Proposal = ''v''\<rparr>"]
  from a e1 have g1: "(\<exists>i \<in> set (strings_Split ''s1,s9'' (CHR '','')). FindPatient example_stub i = Inl (NotFoundError ''s9''))
      \<or> (\<exists>msg. put_fails example_stub ''P1'' = Some msg \<and> NotFoundError ''s9'' = PersistenceError msg)"
    by blast
  from a e2 have g2: "FindProposal example_stub ''P7x2'' = Inl (NotFoundError ''P7x2'')
      \<or> (\<exists>msg. put_fails example_stub (result_id ''P7x2'') = Some msg \<and> NotFoundError ''P7x2'' = PersistenceError msg)"
    by blast
  from b l have g3: "CreateProposal empty_phe example_stub ''P1'' ''r1'' ''r2'' ''s1,x'' ''k2'' ''m'' =
        PutState example_stub ''P1'' (json_Marshal_Proposal
          \<lparr>RequesterID = ''r1'', RequestedID = ''r2'', PatientsIDs = ''s1,x'', KeyID_Proposal = ''k2'',
           Value_Proposal = MeanFromString empty_phe ''m'' [''c1'', []]\<rparr>)"
    by (simp add: new_Patient_def)
  from c f have g4: "CreateResult empty_phe proposal_stub ''P7x2'' ''tA'' ''tB'' ''k2'' ''m'' =
        PutState proposal_stub (result_id ''P7x2'') (json_Marshal_Result
          \<lparr>ProposalID = ''P7x2'', KeyID_Result = ''k2'',
           Value_Result = KeyUpdateFromString empty_phe ''m'' ''tA'' ''tB'' ''v''\<rparr>)"
    by simp
  from e1 g1 e2 g2 l g3 f g4 show ?thesis by (intro conjI)
qed

section \<open>Overwriting\<close>

lemma FindProposal_cong:
  "state ctx' i = state ctx i \<Longrightarrow> get_fails ctx' = get_fails ctx \<Longrightarrow>
   FindProposal ctx' i = FindProposal ctx i"
  by (simp add: FindProposal_def GetState_def split: option.splits)

lemma shape_FindProposal:
  assumes "\<exists>v. ctx' = ctx \<or> ctx' = ctx\<lparr>state := (state ctx)(key \<mapsto> v)\<rparr>" and "key \<noteq> i"
  shows "FindProposal ctx' i = FindProposal ctx i"
proof -
  from assms(1) obtain v where "ctx' = ctx \<or> ctx' = ctx\<lparr>state := (state ctx)(key \<mapsto> v)\<rparr>" ..
  from shape_frame [OF this, of i] assms(2)
  have "state ctx' i = state ctx i" and "get_fails ctx' = get_fails ctx" by simp_all
  then show ?thesis by (rule FindProposal_cong)
qed

lemma CreatePatient_failed:
  "fst (CreatePatient ctx id' name preExistingConditions diagnosisID statusID keyID) \<noteq> None \<Longrightarrow>
   snd (CreatePatient ctx id' name preExistingConditions diagnosisID statusID keyID) = ctx"
  unfolding CreatePatient_def Let_def by (rule PutState_failed)

lemma UpdatePatient_failed:
  "fst (UpdatePatient ctx id' name preExistingConditions diagnosisID statusID keyID) \<noteq> None \<Longrightarrow>
   snd (UpdatePatient ctx id' name preExistingConditions diagnosisID statusID keyID) = ctx"
proof (cases "FindPatient ctx id'")
  case (Inl err)
  then show ?thesis by (simp add: UpdatePatient_not_found)
next
  case (Inr patient)
  assume "fst (UpdatePatient ctx id' name preExistingConditions diagnosisID statusID keyID) \<noteq> None"
  then show ?thesis unfolding UpdatePatient_found [OF Inr] by (rule PutState_failed)
qed

lemma CreateProposal_failed:
  "fst (CreateProposal lib ctx id' requesterID requestedID patientsIDs keyID modulo') \<noteq> None \<Longrightarrow>
   snd (CreateProposal lib ctx id' requesterID requestedID patientsIDs keyID modulo') = ctx"
proof (cases "patients_values ctx [] (strings_Split patientsIDs (CHR '',''))")
  case (Inl err)
  then show ?thesis by (simp add: CreateProposal_unresolved)
next
  case (Inr ms)
  assume "fst (CreateProposal lib ctx id' requesterID requestedID patientsIDs keyID modulo') \<noteq> None"
  with Inr show ?thesis by (simp add: CreateProposal_def PutState_failed)
qed

lemma CreateResult_failed:
  "fst (CreateResult lib ctx proposalID firstToken secondToken keyID modulo') \<noteq> None \<Longrightarrow>
   snd (CreateResult lib ctx proposalID firstToken secondToken keyID modulo') = ctx"
proof (cases "FindProposal ctx proposalID")
  case (Inl err)
  then show ?thesis by (simp add: CreateResult_not_found)
next
  case (Inr proposal)
  assume "fst (CreateResult lib ctx proposalID firstToken secondToken keyID modulo') \<noteq> None"
  then show ?thesis unfolding CreateResult_found [OF Inr] by (rule PutState_failed)
qed

text \<open>
  C5, as the specification states it, fails: no operation checks whether its key is
  taken. After a proposal was stored at \<open>P1\<close> with its value set, a second
  \<^verbatim>\<open>CreateProposal\<close> on \<open>P1\<close> runs the aggregation again, over other patients, and the
  proposal read back at \<open>P1\<close> is another one.
\<close>

theorem Proposal_immutable_counterexample:
  "fst (CreateProposal example_phe example_stub ''P1'' ''r1'' ''r2'' ''s1'' ''k2'' ''m'') = None
   \<and> FindProposal (snd (CreateProposal example_phe example_stub ''P1'' ''r1'' ''r2'' ''s1'' ''k2'' ''m'')) ''P1'' =
        Inr \<lparr>RequesterID = ''r1'', RequestedID = ''r2'', PatientsIDs = ''s1'', KeyID_Proposal = ''k2'',
             Value_Proposal = ''mean(m;c1;)''\<rparr>
   \<and> fst (CreateProposal example_phe
             (snd (CreateProposal example_phe example_stub ''P1'' ''r1'' ''r2'' ''s1'' ''k2'' ''m''))
             ''P1'' ''r1'' ''r2'' ''s2,s3'' ''k2'' ''m'') = None
   \<and> FindProposal (snd (CreateProposal example_phe
             (snd (CreateProposal example_phe example_stub ''P1'' ''r1'' ''r2'' ''s1'' ''k2'' ''m''))
             ''P1'' ''r1'' ''r2'' ''s2,s3'' ''k2'' ''m'')) ''P1'' =
        Inr \<lparr>RequesterID = ''r1'', RequestedID = ''r2'', PatientsIDs = ''s2,s3'', KeyID_Proposal = ''k2'',
             Value_Proposal = ''mean(m;c2;c3;)''\<rparr>"
proof -
  define ctx1 where "ctx1 = example_stub\<lparr>state := (state example_stub)(''P1'' \<mapsto> json_Marshal_Proposal
     \<lparr>RequesterID = ''r1'', RequestedID = ''r2'', PatientsIDs = ''s1'', KeyID_Proposal = ''k2'',
      Value_Proposal = ''mean(m;c1;)''\<rparr>)\<rparr>"
  define ctx2 where "ctx2 = ctx1\<lparr>state := (state ctx1)(''P1'' \<mapsto> json_Marshal_Proposal
     \<lparr>RequesterID = ''r1'', RequestedID = ''r2'', PatientsIDs = ''s2,s3'', KeyID_Proposal = ''k2'',
      Value_Proposal = ''mean(m;c2;c3;)''\<rparr>)\<rparr>"
  have w1: "put_fails example_stub ''P1'' = None" by (simp add: example_stub_def)
  have w2: "put_fails ctx1 ''P1'' = None" by (simp add: ctx1_def example_stub_def)
  have g1: "get_fails ctx1 = get_fails example_stub" by (simp add: ctx1_def)
  have g2: "get_fails ctx2 = get_fails example_stub" by (simp add: ctx2_def ctx1_def)
  have g: "get_fails example_stub ''P1'' = None" by (simp add: example_stub_def)
  have m1: "MeanFromString example_phe ''m'' [''c1''] = ''mean(m;c1;)''"
    by (simp add: example_phe_def)
  have m2: "MeanFromString example_phe ''m'' [''c2'', ''c3''] = ''mean(m;c2;c3;)''"
    by (simp add: example_phe_def)
  have l1: "list_all2 (\<lambda>i p. FindPatient example_stub i = Inr p) (strings_Split ''s1'' (CHR '',''))
     [\<lparr>Name = ''Ann'', PreExistingConditions = ''c1'', DiagnosisID = ''d1'', StatusID = ''t1'', KeyID = ''k1''\<rparr>]"
    by (simp add: example_patients)
  have c1: "CreateProposal example_phe example_stub ''P1'' ''r1'' ''r2'' ''s1'' ''k2'' ''m'' = (None, ctx1)"
    unfolding CreateProposal_resolved [OF l1] PutState_ok [OF w1] ctx1_def by (simp add: m1)
  have p2: "FindPatient ctx1 ''s2'' = FindPatient example_stub ''s2''"
    and p3: "FindPatient ctx1 ''s3'' = FindPatient example_stub ''s3''"
    by (simp_all add: ctx1_def FindPatient_def GetState_def split: option.splits)
  have l2: "list_all2 (\<lambda>i p. FindPatient ctx1 i = Inr p) (strings_Split ''s2,s3'' (CHR '',''))
     [\<lparr>Name = ''Bob'', PreExistingConditions = ''c2'', DiagnosisID = ''d2'', StatusID = ''t2'', KeyID = ''k1''\<rparr>,
      \<lparr>Name = ''Cy'', PreExistingConditions = ''c3'', DiagnosisID = ''d3'', StatusID = ''t3'', KeyID = ''k1''\<rparr>]"
    by (simp add: p2 p3 example_patients)
  have c2: "CreateProposal example_phe ctx1 ''P1'' ''r1'' ''r2'' ''s2,s3'' ''k2'' ''m'' = (None, ctx2)"
    unfolding CreateProposal_resolved [OF l2] PutState_ok [OF w2] ctx2_def by (simp add: m2)
  have s1: "state ctx1 ''P1'' = Some (json_Marshal_Proposal
     \<lparr>RequesterID = ''r1'', RequestedID = ''r2'', PatientsIDs = ''s1'', KeyID_Proposal = ''k2'',
      Value_Proposal = ''mean(m;c1;)''\<rparr>)"
    by (simp add: ctx1_def)
  have s2: "state ctx2 ''P1'' = Some (json_Marshal_Proposal
     \<lparr>RequesterID = ''r1'', RequestedID = ''r2'', PatientsIDs = ''s2,s3'', KeyID_Proposal = ''k2'',
      Value_Proposal = ''mean(m;c2;c3;)''\<rparr>)"
    by (simp add: ctx2_def)
  have f1: "FindProposal ctx1 ''P1'' = Inr \<lparr>RequesterID = ''r1'', RequestedID = ''r2'', PatientsIDs = ''s1'',
      KeyID_Proposal = ''k2'', Value_Proposal = ''mean(m;c1;)''\<rparr>"
    using FindProposal_present [OF s1] g g1 by (simp add: Unmarshal_Marshal_Proposal)
  have f2: "FindProposal ctx2 ''P1'' = Inr \<lparr>RequesterID = ''r1'', RequestedID = ''r2'', PatientsIDs = ''s2,s3'',
      KeyID_Proposal = ''k2'', Value_Proposal = ''mean(m;c2;c3;)''\<rparr>"
    using FindProposal_present [OF s2] g g2 by (simp add: Unmarshal_Marshal_Proposal)
  show ?thesis unfolding c1 fst_conv snd_conv c2 using f1 f2 by (intro conjI) (rule refl | assumption)+
qed

text \<open>
  C5, amended. A stored proposal is changed only by a successful write to its own key.
  \<^verbatim>\<open>CreatePatient\<close>, \<^verbatim>\<open>UpdatePatient\<close> and \<^verbatim>\<open>CreateProposal\<close> called with another id,
  and \<^verbatim>\<open>CreateResult\<close> whose derived result id is another key, leave what
  \<^verbatim>\<open>FindProposal\<close> returns for the proposal's id as it was; so does every call that fails,
  which leaves the whole ledger as it was.
\<close>

theorem Proposal_kept_unless_its_key_is_written:
  "(id' \<noteq> pid \<longrightarrow>
      FindProposal (snd (CreatePatient ctx id' name preExistingConditions diagnosisID statusID keyID)) pid =
        FindProposal ctx pid)
   \<and> (id' \<noteq> pid \<longrightarrow>
      FindProposal (snd (UpdatePatient ctx id' name preExistingConditions diagnosisID statusID keyID)) pid =
        FindProposal ctx pid)
   \<and> (id' \<noteq> pid \<longrightarrow>
      FindProposal (snd (CreateProposal lib ctx id' requesterID requestedID patientsIDs keyID modulo')) pid =
        FindProposal ctx pid)
   \<and> (result_id proposalID \<noteq> pid \<longrightarrow>
      FindProposal (snd (CreateResult lib ctx proposalID firstToken secondToken keyID modulo')) pid =
        FindProposal ctx pid)
   \<and> (fst (CreatePatient ctx id' name preExistingConditions diagnosisID statusID keyID) \<noteq> None \<longrightarrow>
      snd (CreatePatient ctx id' name preExistingConditions diagnosisID statusID keyID) = ctx)
   \<and> (fst (UpdatePatient ctx id' name preExistingConditions diagnosisID statusID keyID) \<noteq> None \<longrightarrow>
      snd (UpdatePatient ctx id' name preExistingConditions diagnosisID statusID keyID) = ctx)
   \<and> (fst (CreateProposal lib ctx id' requesterID requestedID patientsIDs keyID modulo') \<noteq> None \<longrightarrow>
      snd (CreateProposal lib ctx id' requesterID requestedID patientsIDs keyID modulo') = ctx)
   \<and> (fst (CreateResult lib ctx proposalID firstToken secondToken keyID modulo') \<noteq> None \<longrightarrow>
      snd (CreateResult lib ctx proposalID firstToken secondToken keyID modulo') = ctx)"
proof (intro conjI impI)
  assume "id' \<noteq> pid"
  with CreatePatient_shape
  show "FindProposal (snd (CreatePatient ctx id' name preExistingConditions diagnosisID statusID keyID)) pid =
        FindProposal ctx pid"
    by (rule shape_FindProposal)
next
  assume "id' \<noteq> pid"
  with UpdatePatient_shape
  show "FindProposal (snd (UpdatePatient ctx id' name preExistingConditions diagnosisID statusID keyID)) pid =
        FindProposal ctx pid"
    by (rule shape_FindProposal)
next
  assume "id' \<noteq> pid"
  with CreateProposal_shape
  show "FindProposal (snd (CreateProposal lib ctx id' requesterID requestedID patientsIDs keyID modulo')) pid =
        FindProposal ctx pid"
    by (rule shape_FindProposal)
next
  assume "result_id proposalID \<noteq> pid"
  with CreateResult_shape
  show "FindProposal (snd (CreateResult lib ctx proposalID firstToken secondToken keyID modulo')) pid =
        FindProposal ctx pid"
    by (rule shape_FindProposal)
next
  assume "fst (CreatePatient ctx id' name preExistingConditions diagnosisID statusID keyID) \<noteq> None"
  then show "snd (CreatePatient ctx id' name preExistingConditions diagnosisID statusID keyID) = ctx"
    by (rule CreatePatient_failed)
next
  assume "fst (UpdatePatient ctx id' name preExistingConditions diagnosisID statusID keyID) \<noteq> None"
  then show "snd (UpdatePatient ctx id' name preExistingConditions diagnosisID statusID keyID) = ctx"
    by (rule UpdatePatient_failed)
next
  assume "fst (CreateProposal lib ctx id' requesterID requestedID patientsIDs keyID modulo') \<noteq> None"
  then show "snd (CreateProposal lib ctx id' requesterID requestedID patientsIDs keyID modulo') = ctx"
    by (rule CreateProposal_failed)
next
  assume "fst (CreateResult lib ctx proposalID firstToken secondToken keyID modulo') \<noteq> None"
  then show "snd (CreateResult lib ctx proposalID firstToken secondToken keyID modulo') = ctx"
    by (rule CreateResult_failed)
qed

theorem Proposal_kept_unless_its_key_is_written_witness:
  "''s1'' \<noteq> ''P7x2'' \<and> result_id ''P7x2'' \<noteq> ''P7x2''
   \<and> FindProposal (snd (CreatePatient proposal_stub ''s1'' ''Ann'' ''c1'' ''d1'' ''t1'' ''k1'')) ''P7x2'' =
        FindProposal proposal_stub ''P7x2''
   \<and> FindProposal (snd (UpdatePatient proposal_stub ''s1'' ''Ann'' ''c1'' ''d1'' ''t1'' ''k1'')) ''P7x2'' =
        FindProposal proposal_stub ''P7x2''
   \<and> FindProposal (snd (CreateProposal example_phe proposal_stub ''s1'' ''r1'' ''r2'' ''P7x2'' ''k1'' ''m'')) ''P7x2'' =
        FindProposal proposal_stub ''P7x2''
   \<and> FindProposal (snd (CreateResult example_phe proposal_stub ''P7x2'' ''tA'' ''tB'' ''k1'' ''m'')) ''P7x2'' =
        FindProposal proposal_stub ''P7x2''
   \<and> fst (CreatePatient refusing_stub ''P7x2'' ''Ann'' ''c1'' ''d1'' ''t1'' ''k1'') \<noteq> None
   \<and> snd (CreatePatient refusing_stub ''P7x2'' ''Ann'' ''c1'' ''d1'' ''t1'' ''k1'') = refusing_stub
   \<and> fst (UpdatePatient refusing_stub ''P7x2'' ''Ann'' ''c1'' ''d1'' ''t1'' ''k1'') \<noteq> None
   \<and> snd (UpdatePatient refusing_stub ''P7x2'' ''Ann'' ''c1'' ''d1'' ''t1'' ''k1'') = refusing_stub
   \<and> fst (CreateProposal example_phe refusing_stub ''P7x2'' ''r1'' ''r2'' ''P7x2'' ''k1'' ''m'') \<noteq> None
   \<and> snd (CreateProposal example_phe refusing_stub ''P7x2'' ''r1'' ''r2'' ''P7x2'' ''k1'' ''m'') = refusing_stub
   \<and> fst (CreateResult example_phe refusing_stub ''P7x2'' ''tA'' ''tB'' ''k1'' ''m'') \<noteq> None
   \<and> snd (CreateResult example_phe refusing_stub ''P7x2'' ''tA'' ''tB'' ''k1'' ''m'') = refusing_stub"
proof -
  have h1: "''s1'' \<noteq> ''P7x2''" by simp
  have h2: "result_id ''P7x2'' \<noteq> ''P7x2''" by (simp add: result_id_def)
  have w: "put_fails refusing_stub k = Some ''write refused''" for k
    by (simp add: refusing_stub_def)
  have g: "GetState refusing_stub ''P7x2'' = Inr (Some (json_Marshal_Proposal \<lparr>RequesterID = ''r1'',
      RequestedID = ''r2'', PatientsIDs = ''s1,s2'', KeyID_Proposal = ''k1'', Value_Proposal = ''v''\<rparr>))"
    by (simp add: GetState_def refusing_stub_def proposal_stub_def)
  have h3: "fst (CreatePatient refusing_stub ''P7x2'' ''Ann'' ''c1'' ''d1'' ''t1'' ''k1'') \<noteq> None"
    by (simp add: CreatePatient_def PutState_fst w)
  have h4: "fst (UpdatePatient refusing_stub ''P7x2'' ''Ann'' ''c1'' ''d1'' ''t1'' ''k1'') \<noteq> None"
    by (simp add: UpdatePatient_def FindPatient_def g PutState_fst w)
  have h5: "fst (CreateProposal example_phe refusing_stub ''P7x2'' ''r1'' ''r2'' ''P7x2'' ''k1'' ''m'') \<noteq> None"
    by (simp add: CreateProposal_def FindPatient_def g PutState_fst w)
  have h6: "fst (CreateResult example_phe refusing_stub ''P7x2'' ''tA'' ''tB'' ''k1'' ''m'') \<noteq> None"
    by (simp add: CreateResult_def FindProposal_def g PutState_fst w)
  note a = Proposal_kept_unless_its_key_is_written [where ctx = proposal_stub and id' = "''s1''"
     and pid = "''P7x2''" and name = "''Ann''" and preExistingConditions = "''c1''" and diagnosisID = "''d1''"
     and statusID = "''t1''" and keyID = "''k1''" and lib = example_phe and requesterID = "''r1''"
     and requestedID = "''r2''" and patientsIDs = "''P7x2''" and modulo' = "''m''" and proposalID = "''P7x2''"
     and firstToken = "''tA''" and secondToken = "''tB''"]
  note b = Proposal_kept_unless_its_key_is_written [where ctx = refusing_stub and id' = "''P7x2''"
     and pid = "''P7x2''" and name = "''Ann''" and preExistingConditions = "''c1''" and diagnosisID = "''d1''"
     and statusID = "''t1''" and keyID = "''k1''" and lib = example_phe and requesterID = "''r1''"
     and requestedID = "''r2''" and patientsIDs = "''P7x2''" and modulo' = "''m''" and proposalID = "''P7x2''"
     and firstToken = "''tA''" and secondToken = "''tB''"]
  from a h1 have a1: "FindProposal (snd (CreatePatient proposal_stub ''s1'' ''Ann'' ''c1'' ''d1'' ''t1'' ''k1'')) ''P7x2'' =
        FindProposal proposal_stub ''P7x2''" by blast
  from a h1 have a2: "FindProposal (snd (UpdatePatient proposal_stub ''s1'' ''Ann'' ''c1'' ''d1'' ''t1'' ''k1'')) ''P7x2'' =
        FindProposal proposal_stub ''P7x2''" by blast
  from a h1 have a3: "FindProposal (snd (CreateProposal example_phe proposal_stub ''s1'' ''r1'' ''r2'' ''P7x2'' ''k1'' ''m'')) ''P7x2'' =
        FindProposal proposal_stub ''P7x2''" by blast
  from a h2 have a4: "FindProposal (snd (CreateResult example_phe proposal_stub ''P7x2'' ''tA'' ''tB'' ''k1'' ''m'')) ''P7x2'' =
        FindProposal proposal_stub ''P7x2''" by blast
  from b h3 have b1: "snd (CreatePatient refusing_stub ''P7x2'' ''Ann'' ''c1'' ''d1'' ''t1'' ''k1'') = refusing_stub"
    by blast
  from b h4 have b2: "snd (UpdatePatient refusing_stub ''P7x2'' ''Ann'' ''c1'' ''d1'' ''t1'' ''k1'') = refusing_stub"
    by blast
  from b h5 have b3: "snd (CreateProposal example_phe refusing_stub ''P7x2'' ''r1'' ''r2'' ''P7x2'' ''k1'' ''m'') = refusing_stub"
    by blast
  from b h6 have b4: "snd (CreateResult example_phe refusing_stub ''P7x2'' ''tA'' ''tB'' ''k1'' ''m'') = refusing_stub"
    by blast
  from h1 h2 a1 a2 a3 a4 h3 b1 h4 b2 h5 b3 h6 b4 show ?thesis by (intro conjI)
qed



end
